theory Spec2Isabelle
  imports Complex_Main "HOL-Library.Multiset"
begin

section \<open>Python values and errors\<close>

text \<open>
  The exceptions that \<^verbatim>\<open>tsfc/fem.py\<close> can raise, as values. A function of the
  source that can raise returns \<open>error + 'a\<close>, with \<open>Inl\<close> for the exception.
  Floating-point table entries are modelled by exact reals.
\<close>

datatype error =
    NotImplementedError string
  | AssertionError
  | KeyError
  | IndexError
  | TypeError
  | ValueError
  | AttributeError

text \<open>
  \<^verbatim>\<open>itertools.product(pool, repeat=n)\<close>: all sequences of length \<open>n\<close> over
  \<open>pool\<close>, the last position varying fastest.
\<close>

fun product_repeat :: "'a list \<Rightarrow> nat \<Rightarrow> 'a list list" where
  "product_repeat pool 0 = [[]]"
| "product_repeat pool (Suc n) =
     concat (map (\<lambda>x. map (\<lambda>ys. x # ys) (product_repeat pool n)) pool)"

section \<open>Round-off snapping (\<^verbatim>\<open>tabulate\<close>, lines 59--65)\<close>

text \<open>
  \<^verbatim>\<open>epsilon = eval("1e-%d" % (PRECISION - 1))\<close>. The constant \<^verbatim>\<open>PRECISION\<close>
  lives in \<^verbatim>\<open>tsfc/constants.py\<close>, so it is a parameter here, a number of decimal
  digits of at least one (for zero the string is not a Python literal).
\<close>

definition epsilon :: "nat \<Rightarrow> real" where
  "epsilon PRECISION = 1 / 10 ^ (PRECISION - 1)"

text \<open>
  The five masked assignments, in the order of the source; each later test reads the
  entry as the earlier assignments have left it.
\<close>

definition snap :: "real \<Rightarrow> real \<Rightarrow> real" where
  "snap eps x =
     (let x1 = (if \<bar>x\<bar> < eps then 0 else x);
          x2 = (if \<bar>x1 - 1\<bar> < eps then 1 else x1);
          x3 = (if \<bar>x2 + 1\<bar> < eps then - 1 else x2);
          x4 = (if \<bar>x3 - 1 / 2\<bar> < eps then 1 / 2 else x3);
          x5 = (if \<bar>x4 + 1 / 2\<bar> < eps then - (1 / 2) else x4)
      in x5)"

text \<open>A table as \<^verbatim>\<open>_tabulate\<close> yields it: rows are points, columns basis functions.\<close>

definition snap_table :: "real \<Rightarrow> real list list \<Rightarrow> real list list" where
  "snap_table eps table = map (map (snap eps)) table"

section \<open>Derivative multi-indices (\<^verbatim>\<open>iterate_shape\<close>, lines 217--221)\<close>

text \<open>
  \<^verbatim>\<open>tuple((numpy.asarray(ordered_deriv) == d).sum() for d in range(tdim))\<close>
\<close>

definition flat_index :: "nat \<Rightarrow> nat list \<Rightarrow> nat list" where
  "flat_index tdim ordered_deriv = map (\<lambda>d. count_list ordered_deriv d) [0..<tdim]"

definition ordered_derivs :: "nat \<Rightarrow> nat \<Rightarrow> nat list list" where
  "ordered_derivs tdim local_derivatives = product_repeat [0..<tdim] local_derivatives"

definition flat_derivs :: "nat \<Rightarrow> nat \<Rightarrow> nat list list" where
  "flat_derivs tdim local_derivatives = map (flat_index tdim) (ordered_derivs tdim local_derivatives)"

section \<open>Elements, cells and tables\<close>

text \<open>
  What \<^verbatim>\<open>fem.py\<close> reads of a UFL element: \<^verbatim>\<open>family()\<close>,
  \<^verbatim>\<open>reference_value_size()\<close>, \<^verbatim>\<open>len(symmetry())\<close>,
  \<^verbatim>\<open>cell().topological_dimension()\<close>, \<^verbatim>\<open>spanning_degree(ufl_element)\<close> and the
  \<^verbatim>\<open>space_dimension()\<close> of the FIAT element made from it.
\<close>

record ufl_element =
  family :: string
  reference_value_size :: nat
  symmetry_size :: nat
  topological_dimension :: nat
  spanning_degree :: nat
  space_dimension :: nat

text \<open>
  What \<^verbatim>\<open>fem.py\<close> reads of a UFL cell: \<^verbatim>\<open>num_facets()\<close> and, for extruded cells,
  \<^verbatim>\<open>sub_cells()[0].num_facets()\<close>.
\<close>

record ufl_cell =
  num_facets :: nat
  base_num_facets :: nat

text \<open>A numpy array of one, two or three dimensions, as nested lists.\<close>

datatype table =
    Array1 "real list"
  | Array2 "real list list"
  | Array3 "real list list list"

fun ndim :: "table \<Rightarrow> nat" where
  "ndim (Array1 _) = 1"
| "ndim (Array2 _) = 2"
| "ndim (Array3 _) = 3"

type_synonym tabulation_key = "ufl_element \<times> nat \<times> nat list"

text \<open>
  The numerical collaborators, which are not part of \<^verbatim>\<open>fem.py\<close>, as parameters:
  the constant \<^verbatim>\<open>PRECISION\<close>; FIAT's \<^verbatim>\<open>element.tabulate(order, points)\<close>, a dictionary
  from derivative tuples to arrays, here an association list from \<open>D\<close> to the array's
  data in row-major order; the facet transforms of the FIAT cell; and the
  elementwise test of \<^verbatim>\<open>compat.allclose\<close>.
\<close>

record backend =
  PRECISION :: nat
  fiat_tabulate :: "ufl_element \<Rightarrow> nat \<Rightarrow> real list list \<Rightarrow> (nat list \<times> real list) list"
  get_facet_transform :: "ufl_cell \<Rightarrow> nat \<Rightarrow> real list \<Rightarrow> real list"
  get_horiz_facet_transform :: "ufl_cell \<Rightarrow> nat \<Rightarrow> real list \<Rightarrow> real list"
  get_vert_facet_transform :: "ufl_cell \<Rightarrow> nat \<Rightarrow> real list \<Rightarrow> real list"
  isclose :: "real \<Rightarrow> real \<Rightarrow> bool"

text \<open>Running a fallible step over a list, stopping at the first exception.\<close>

fun sequence :: "(error + 'a) list \<Rightarrow> error + 'a list" where
  "sequence [] = Inr []"
| "sequence (x # xs) =
     (case x of
        Inl e \<Rightarrow> Inl e
      | Inr v \<Rightarrow> (case sequence xs of Inl e \<Rightarrow> Inl e | Inr vs \<Rightarrow> Inr (v # vs)))"

section \<open>Tabulation (\<^verbatim>\<open>_tabulate\<close>, \<^verbatim>\<open>tabulate\<close>, \<^verbatim>\<open>make_tabulator\<close>)\<close>

text \<open>
  \<^verbatim>\<open>fiat_table.reshape(phi, C, q).transpose(1, 2, 0)\<close>: entry \<open>[c][p][i]\<close> of the result is
  entry \<open>[i][c][p]\<close> of the reshaped array; \<^verbatim>\<open>reshape\<close> raises \<^verbatim>\<open>ValueError\<close> when
  the sizes disagree.
\<close>

definition reorder_table :: "nat \<Rightarrow> nat \<Rightarrow> nat \<Rightarrow> real list \<Rightarrow> error + real list list list" where
  "reorder_table phi C q fiat_table =
     (if length fiat_table \<noteq> phi * C * q then Inl ValueError
      else Inr (map (\<lambda>c. map (\<lambda>p. map (\<lambda>i. fiat_table ! ((i * C + c) * q + p)) [0..<phi]) [0..<q])
                  [0..<C]))"

text \<open>
  \<^verbatim>\<open>_tabulate\<close>, here \<open>tabulate0\<close>: the tuples \<open>(c, D, table)\<close> it yields, in order.
\<close>

definition tabulate0 ::
  "backend \<Rightarrow> ufl_element \<Rightarrow> nat \<Rightarrow> real list list \<Rightarrow> error + (nat \<times> nat list \<times> real list list) list" where
  "tabulate0 B ufl_element order pts =
     (let phi = space_dimension ufl_element;
          C = reference_value_size ufl_element - symmetry_size ufl_element;
          q = length pts
      in case sequence
             (map (\<lambda>(D, fiat_table).
                     case reorder_table phi C q fiat_table of
                       Inl e \<Rightarrow> Inl e
                     | Inr reordered_table \<Rightarrow> Inr (map (\<lambda>(c, table). (c, D, table)) (enumerate 0 reordered_table)))
                (fiat_tabulate B ufl_element order pts)) of
           Inl e \<Rightarrow> Inl e
         | Inr yielded \<Rightarrow> Inr (concat yielded))"

text \<open>\<^verbatim>\<open>table.mean(axis=0, keepdims=True)\<close>: the mean of every column.\<close>

definition mean_axis0 :: "real list list \<Rightarrow> real list" where
  "mean_axis0 table =
     (case table of
        [] \<Rightarrow> []
      | row # _ \<Rightarrow> map (\<lambda>j. sum_list (map (\<lambda>r. r ! j) table) / real (length table)) [0..<length row])"

text \<open>
  \<^verbatim>\<open>compat.allclose(table, table.mean(axis=0, keepdims=True), equal_nan=True)\<close>:
  every row is compared with the row of column means, entry by entry.
\<close>

definition allclose_mean :: "backend \<Rightarrow> real list list \<Rightarrow> bool" where
  "allclose_mean B table = list_all (\<lambda>row. list_all2 (isclose B) row (mean_axis0 table)) table"

text \<open>
  The body of the loop of \<^verbatim>\<open>tabulate\<close> for one \<open>(c, D, table)\<close>: round-off snapping,
  then the test \<^verbatim>\<open>spanning_degree(ufl_element) <= sum(D)\<close>, under which the assertion
  is checked and \<^verbatim>\<open>table[0]\<close> taken (an \<^verbatim>\<open>IndexError\<close> for a table with no row).
\<close>

definition tabulate_entry ::
  "backend \<Rightarrow> ufl_element \<Rightarrow> nat \<times> nat list \<times> real list list \<Rightarrow> error + (nat \<times> nat list \<times> table)" where
  "tabulate_entry B ufl_element entry =
     (case entry of (c, D, table0) \<Rightarrow>
        let table = snap_table (epsilon (PRECISION B)) table0 in
        if spanning_degree ufl_element \<le> sum_list D then
          if allclose_mean B table then
            (case table of [] \<Rightarrow> Inl IndexError | row # _ \<Rightarrow> Inr (c, D, Array1 row))
          else Inl AssertionError
        else Inr (c, D, Array2 table))"

definition tabulate ::
  "backend \<Rightarrow> ufl_element \<Rightarrow> nat \<Rightarrow> real list list \<Rightarrow> error + (nat \<times> nat list \<times> table) list" where
  "tabulate B ufl_element order pts =
     (case tabulate0 B ufl_element order pts of
        Inl e \<Rightarrow> Inl e
      | Inr entries \<Rightarrow> sequence (map (tabulate_entry B ufl_element) entries))"

definition make_tabulator ::
  "backend \<Rightarrow> real list list \<Rightarrow> ufl_element \<Rightarrow> nat \<Rightarrow> error + (nat \<times> nat list \<times> table) list" where
  "make_tabulator B pts = (\<lambda>elem order. tabulate B elem order pts)"

section \<open>\<^verbatim>\<open>TabulationManager\<close>\<close>

record TabulationManager =
  integral_type :: string
  points :: "real list list"
  tabulators :: "(ufl_element \<Rightarrow> nat \<Rightarrow> error + (nat \<times> nat list \<times> table) list) list"
  tables :: "tabulation_key \<rightharpoonup> table"

definition not_supported :: "string \<Rightarrow> error" where
  "not_supported integral_type0 =
     NotImplementedError (''integral type '' @ integral_type0 @ '' not supported'')"

definition TabulationManager_init ::
  "backend \<Rightarrow> string \<Rightarrow> ufl_cell \<Rightarrow> real list list \<Rightarrow> error + TabulationManager" where
  "TabulationManager_init B integral_type0 cell pts =
     (let self = \<lparr>integral_type = integral_type0, points = pts, tabulators = [], tables = Map.empty\<rparr> in
      if integral_type0 = ''cell'' then
        Inr (self\<lparr>tabulators := [make_tabulator B pts]\<rparr>)
      else if integral_type0 \<in> set [''exterior_facet'', ''interior_facet''] then
        Inr (self\<lparr>tabulators :=
               map (\<lambda>entity. make_tabulator B (map (get_facet_transform B cell entity) pts))
                 [0..<num_facets cell]\<rparr>)
      else if integral_type0 \<in> set [''exterior_facet_bottom'', ''exterior_facet_top'', ''interior_facet_horiz''] then
        Inr (self\<lparr>tabulators :=
               map (\<lambda>entity. make_tabulator B (map (get_horiz_facet_transform B cell entity) pts))
                 [0..<2]\<rparr>)
      else if integral_type0 \<in> set [''exterior_facet_vert'', ''interior_facet_vert''] then
        Inr (self\<lparr>tabulators :=
               map (\<lambda>entity. make_tabulator B (map (get_vert_facet_transform B cell entity) pts))
                 [0..<base_num_facets cell]\<rparr>)
      else Inl (not_supported integral_type0))"

text \<open>
  \<^verbatim>\<open>store[(ufl_element, c, D)].append(table)\<close> on a \<^verbatim>\<open>defaultdict(list)\<close>, as an
  association list in order of first insertion.
\<close>

fun store_append :: "'k \<Rightarrow> 'v \<Rightarrow> ('k \<times> 'v list) list \<Rightarrow> ('k \<times> 'v list) list" where
  "store_append k v [] = [(k, [v])]"
| "store_append k v ((k', vs) # rest) =
     (if k = k' then (k', vs @ [v]) # rest else (k', vs) # store_append k v rest)"

text \<open>
  \<^verbatim>\<open>numpy.array(tables)\<close> for the tables of one key, one per tabulator: one-dimensional
  tables of one length stack to two dimensions, two-dimensional tables of one shape to
  three. Every tabulator sees the same element, order and number of points, so other
  lists do not arise from a consistent FIAT; they are a \<^verbatim>\<open>ValueError\<close> here.
\<close>

fun rows1 :: "table list \<Rightarrow> real list list option" where
  "rows1 [] = Some []"
| "rows1 (Array1 r # ts) = map_option (\<lambda>rs. r # rs) (rows1 ts)"
| "rows1 (_ # ts) = None"

fun rows2 :: "table list \<Rightarrow> real list list list option" where
  "rows2 [] = Some []"
| "rows2 (Array2 m # ts) = map_option (\<lambda>ms. m # ms) (rows2 ts)"
| "rows2 (_ # ts) = None"

definition rectangular :: "'a list list \<Rightarrow> bool" where
  "rectangular xss = (case xss of [] \<Rightarrow> True | xs # _ \<Rightarrow> list_all (\<lambda>ys. length ys = length xs) xss)"

definition numpy_array :: "table list \<Rightarrow> error + table" where
  "numpy_array ts =
     (case ts of
        [] \<Rightarrow> Inl ValueError
      | Array1 _ # _ \<Rightarrow>
          (case rows1 ts of
             Some rs \<Rightarrow> if rectangular rs then Inr (Array2 rs) else Inl ValueError
           | None \<Rightarrow> Inl ValueError)
      | Array2 _ # _ \<Rightarrow>
          (case rows2 ts of
             Some ms \<Rightarrow>
               if rectangular ms \<and> list_all rectangular ms \<and> rectangular (map (\<lambda>m. case m of [] \<Rightarrow> [] | r # _ \<Rightarrow> r) ms)
               then Inr (Array3 ms) else Inl ValueError
           | None \<Rightarrow> Inl ValueError)
      | Array3 _ # _ \<Rightarrow> Inl ValueError)"

text \<open>The table stored for one key of \<open>store\<close>, in the two branches of the source.\<close>

definition stored_table :: "backend \<Rightarrow> string \<Rightarrow> table list \<Rightarrow> error + table" where
  "stored_table B integral_type0 ts =
     (if integral_type0 = ''cell'' then
        (case ts of [table] \<Rightarrow> Inr table | _ \<Rightarrow> Inl ValueError)
      else
        (case numpy_array ts of
           Inl e \<Rightarrow> Inl e
         | Inr (Array2 rs) \<Rightarrow>
             if allclose_mean B rs then
               (case rs of [] \<Rightarrow> Inl IndexError | row # _ \<Rightarrow> Inr (Array1 row))
             else Inl AssertionError
         | Inr table \<Rightarrow> Inr table))"

definition TabulationManager_tabulate ::
  "backend \<Rightarrow> TabulationManager \<Rightarrow> ufl_element \<Rightarrow> nat \<Rightarrow> error + TabulationManager" where
  "TabulationManager_tabulate B self ufl_element max_deriv =
     (case sequence (map (\<lambda>tabulator. tabulator ufl_element max_deriv) (tabulators self)) of
        Inl e \<Rightarrow> Inl e
      | Inr yielded \<Rightarrow>
          let store = fold (\<lambda>(c, D, table). store_append (ufl_element, c, D) table) (concat yielded) [] in
          (case sequence (map (\<lambda>(key, ts).
                                 case stored_table B (integral_type self) ts of
                                   Inl e \<Rightarrow> Inl e
                                 | Inr table \<Rightarrow> Inr (key, table)) store) of
             Inl e \<Rightarrow> Inl e
           | Inr items \<Rightarrow> Inr (self\<lparr>tables := fold (\<lambda>(key, table) m. m(key \<mapsto> table)) items (tables self)\<rparr>)))"

definition TabulationManager_getitem :: "TabulationManager \<Rightarrow> tabulation_key \<Rightarrow> error + table" where
  "TabulationManager_getitem self key = (case tables self key of None \<Rightarrow> Inl KeyError | Some table \<Rightarrow> Inr table)"


section \<open>The intermediate representation\<close>

text \<open>
  Modelled from the spec: the package \<^verbatim>\<open>gem\<close> is imported by \<^verbatim>\<open>fem.py\<close> and is not
  among the sources. The node kinds are those the data model lists (literal tensor,
  indexed access, sum, product, index-sum, variable, list-tensor assembly, partial
  indexing), and the symbolic zero of a shape that \<^verbatim>\<open>gem.Zero()\<close> makes; an index is a fixed integer, a free or bound index (\<^verbatim>\<open>gem.Index\<close>,
  identified by a number), or a runtime value (\<^verbatim>\<open>gem.VariableIndex\<close>).
\<close>

datatype gem =
    Literal table
  | Zero "nat list"
  | Variable string "nat list"
  | Indexed gem "index list"
  | Sum gem gem
  | Product gem gem
  | IndexSum gem index
  | ListTensor "gem list" "nat list"
  | PartialIndexed gem "index list"
and index =
    IntIndex nat
  | Index nat
  | VariableIndex gem

text \<open>
  The callables of \<^verbatim>\<open>gem\<close> that \<^verbatim>\<open>fem.py\<close> uses, as parameters: what a node class
  returns when it is called (it may simplify on construction) is decided by the
  package, not by \<^verbatim>\<open>fem.py\<close>. \<open>gem_shape\<close> is the attribute \<^verbatim>\<open>shape\<close> of a node.
\<close>

record gem_module =
  gem_Literal :: "table \<Rightarrow> gem"
  gem_Zero :: "gem"
  gem_Variable :: "string \<Rightarrow> nat list \<Rightarrow> gem"
  gem_VariableIndex :: "gem \<Rightarrow> index"
  gem_Indexed :: "gem \<Rightarrow> index list \<Rightarrow> gem"
  gem_Sum :: "gem \<Rightarrow> gem \<Rightarrow> gem"
  gem_Product :: "gem \<Rightarrow> gem \<Rightarrow> gem"
  gem_IndexSum :: "gem \<Rightarrow> index \<Rightarrow> gem"
  gem_ListTensor :: "gem list \<Rightarrow> nat list \<Rightarrow> gem"
  gem_partial_indexed :: "gem \<Rightarrow> index list \<Rightarrow> gem"
  gem_shape :: "gem \<Rightarrow> nat list"

section \<open>Modified terminals\<close>

datatype restriction = NoRestriction | Plus | Minus

text \<open>
  The terminal classes that \<^verbatim>\<open>translate\<close> is registered for, and any other class.
  \<^verbatim>\<open>Argument\<close> carries its element and its \<^verbatim>\<open>number()\<close>, \<^verbatim>\<open>Coefficient\<close> its element
  and a number that identifies it.
\<close>

datatype terminal =
    QuadratureWeight
  | GeometricQuantity string
  | Argument ufl_element nat
  | Coefficient ufl_element nat
  | OtherTerminal string

text \<open>\<^verbatim>\<open>isinstance(terminal, FormArgument)\<close> and \<^verbatim>\<open>terminal.ufl_element()\<close>.\<close>

fun terminal_element :: "terminal \<Rightarrow> ufl_element option" where
  "terminal_element (Argument e _) = Some e"
| "terminal_element (Coefficient e _) = Some e"
| "terminal_element _ = None"

text \<open>
  An analysed modified terminal: \<^verbatim>\<open>mt.terminal\<close>, \<^verbatim>\<open>mt.restriction\<close>,
  \<^verbatim>\<open>mt.local_derivatives\<close> and \<^verbatim>\<open>mt.expr.ufl_shape\<close>.
\<close>

record modified_terminal =
  mt_terminal :: terminal
  mt_restriction :: restriction
  local_derivatives :: nat
  ufl_shape :: "nat list"

section \<open>\<^verbatim>\<open>Translator\<close>\<close>

record Translator =
  translator_integral_type :: string
  tabulation_manager :: TabulationManager
  weights :: gem
  quadrature_index :: index
  argument_indices :: "index list"
  coefficient_mapper :: "terminal \<Rightarrow> gem"
  index_cache :: "ufl_element \<Rightarrow> index"
  facet :: "(restriction \<rightharpoonup> index) option"
  cell_orientations :: gem

text \<open>\<^verbatim>\<open>str.startswith\<close>.\<close>

definition startswith :: "string \<Rightarrow> string \<Rightarrow> bool" where
  "startswith s p = (take (length p) s = p)"

definition Translator_init ::
  "gem_module \<Rightarrow> TabulationManager \<Rightarrow> real list \<Rightarrow> index \<Rightarrow> index list \<Rightarrow> (terminal \<Rightarrow> gem) \<Rightarrow>
   (ufl_element \<Rightarrow> index) \<Rightarrow> Translator" where
  "Translator_init G tm ws qi ais cm ic =
     (let it = integral_type tm in
      \<lparr>translator_integral_type = it,
       tabulation_manager = tm,
       weights = gem_Literal G (Array1 ws),
       quadrature_index = qi,
       argument_indices = ais,
       coefficient_mapper = cm,
       index_cache = ic,
       facet =
         (if it \<in> set [''exterior_facet'', ''exterior_facet_vert''] then
            Some [NoRestriction \<mapsto>
                    gem_VariableIndex G (gem_Indexed G (gem_Variable G ''facet'' [1]) [IntIndex 0])]
          else if it \<in> set [''interior_facet'', ''interior_facet_vert''] then
            Some [Plus \<mapsto> gem_VariableIndex G (gem_Indexed G (gem_Variable G ''facet'' [2]) [IntIndex 0]),
                  Minus \<mapsto> gem_VariableIndex G (gem_Indexed G (gem_Variable G ''facet'' [2]) [IntIndex 1])]
          else if it = ''exterior_facet_bottom'' then Some [NoRestriction \<mapsto> IntIndex 0]
          else if it = ''exterior_facet_top'' then Some [NoRestriction \<mapsto> IntIndex 1]
          else if it = ''interior_facet_horiz'' then Some [Plus \<mapsto> IntIndex 1, Minus \<mapsto> IntIndex 0]
          else None),
       cell_orientations =
         (if startswith it ''interior_facet'' then gem_Variable G ''cell_orientations'' [2, 1]
          else gem_Variable G ''cell_orientations'' [1, 1])\<rparr>)"

text \<open>
  \<^verbatim>\<open>select_facet\<close>. \<^verbatim>\<open>self.facet[restriction]\<close> raises \<^verbatim>\<open>TypeError\<close> when
  \<^verbatim>\<open>self.facet\<close> is \<^verbatim>\<open>None\<close> and \<^verbatim>\<open>KeyError\<close> when the restriction is not a key.
\<close>

definition select_facet :: "gem_module \<Rightarrow> Translator \<Rightarrow> gem \<Rightarrow> restriction \<Rightarrow> error + gem" where
  "select_facet G self tensor r =
     (if translator_integral_type self = ''cell'' then Inr tensor
      else case facet self of
             None \<Rightarrow> Inl TypeError
           | Some d \<Rightarrow> (case d r of
                          None \<Rightarrow> Inl KeyError
                        | Some f \<Rightarrow> Inr (gem_partial_indexed G tensor [f])))"

section \<open>\<^verbatim>\<open>iterate_shape\<close>\<close>

text \<open>
  The keys in the order of the two nested loops, the callback on each, the assertion
  \<^verbatim>\<open>len(result) == numpy.prod(shape)\<close>, and the reassembly. The element is
  \<^verbatim>\<open>mt.terminal.ufl_element()\<close>, which only form arguments have.
\<close>

definition shape_keys :: "ufl_element \<Rightarrow> nat \<Rightarrow> tabulation_key list" where
  "shape_keys ufl_element ld =
     concat (map (\<lambda>c. map (\<lambda>flat_deriv. (ufl_element, c, flat_deriv))
                          (flat_derivs (topological_dimension ufl_element) ld))
               [0..<reference_value_size ufl_element])"

definition iterate_shape ::
  "gem_module \<Rightarrow> modified_terminal \<Rightarrow> (tabulation_key \<Rightarrow> error + gem) \<Rightarrow> error + gem" where
  "iterate_shape G mt callback =
     (case terminal_element (mt_terminal mt) of
        None \<Rightarrow> Inl AttributeError
      | Some ufl_element \<Rightarrow>
          (case sequence (map callback (shape_keys ufl_element (local_derivatives mt))) of
             Inl e \<Rightarrow> Inl e
           | Inr result \<Rightarrow>
               let shape = ufl_shape mt in
               if length result \<noteq> prod_list shape then Inl AssertionError
               else if shape \<noteq> [] then Inr (gem_ListTensor G result shape)
               else (case result of [] \<Rightarrow> Inl IndexError | r # _ \<Rightarrow> Inr r)))"

section \<open>\<^verbatim>\<open>translate\<close>\<close>

definition argument_callback ::
  "gem_module \<Rightarrow> Translator \<Rightarrow> modified_terminal \<Rightarrow> index \<Rightarrow> tabulation_key \<Rightarrow> error + gem" where
  "argument_callback G params mt argument_index key =
     (case TabulationManager_getitem (tabulation_manager params) key of
        Inl e \<Rightarrow> Inl e
      | Inr table \<Rightarrow>
          if ndim table = 1 then Inr (gem_Indexed G (gem_Literal G table) [argument_index])
          else (case select_facet G params (gem_Literal G table) (mt_restriction mt) of
                  Inl e \<Rightarrow> Inl e
                | Inr selected \<Rightarrow>
                    Inr (gem_Indexed G (gem_partial_indexed G selected [quadrature_index params])
                           [argument_index])))"

text \<open>\<^verbatim>\<open>numpy.count_nonzero\<close> of a one-dimensional table.\<close>

definition count_nonzero :: "real list \<Rightarrow> nat" where
  "count_nonzero row = length (filter (\<lambda>x. x \<noteq> 0) row)"

text \<open>
  \<^verbatim>\<open>reduce(gem.Sum, [gem.Product(gem.Indexed(row, (i,)), gem.Indexed(ka, (i,)))
  for i in range(row.shape[0])], gem.Zero())\<close>
\<close>

definition expanded_sum :: "gem_module \<Rightarrow> gem \<Rightarrow> gem \<Rightarrow> nat \<Rightarrow> gem" where
  "expanded_sum G row ka n =
     foldl (gem_Sum G) (gem_Zero G)
       (map (\<lambda>i. gem_Product G (gem_Indexed G row [IntIndex i]) (gem_Indexed G ka [IntIndex i])) [0..<n])"

text \<open>
  \<^verbatim>\<open>gem.IndexSum(gem.Product(gem.Indexed(row, (r,)), gem.Indexed(ka, (r,))), r)\<close>
\<close>

definition index_sum_contraction :: "gem_module \<Rightarrow> gem \<Rightarrow> gem \<Rightarrow> index \<Rightarrow> gem" where
  "index_sum_contraction G row ka r =
     gem_IndexSum G (gem_Product G (gem_Indexed G row [r]) (gem_Indexed G ka [r])) r"

definition coefficient_callback ::
  "gem_module \<Rightarrow> Translator \<Rightarrow> ufl_element \<Rightarrow> modified_terminal \<Rightarrow> gem \<Rightarrow> tabulation_key \<Rightarrow> error + gem" where
  "coefficient_callback G params ufl_element mt ka key =
     (case TabulationManager_getitem (tabulation_manager params) key of
        Inl e \<Rightarrow> Inl e
      | Inr table \<Rightarrow>
          (case table of
             Array1 entries \<Rightarrow>
               let row = gem_Literal G table in
               if count_nonzero entries \<le> 2 then
                 if gem_shape G row \<noteq> gem_shape G ka then Inl AssertionError
                 else (case gem_shape G row of
                         [] \<Rightarrow> Inl IndexError
                       | n # _ \<Rightarrow> Inr (expanded_sum G row ka n))
               else Inr (index_sum_contraction G row ka (index_cache params ufl_element))
           | _ \<Rightarrow>
               (case select_facet G params (gem_Literal G table) (mt_restriction mt) of
                  Inl e \<Rightarrow> Inl e
                | Inr selected \<Rightarrow>
                    Inr (index_sum_contraction G
                           (gem_partial_indexed G selected [quadrature_index params]) ka
                           (index_cache params ufl_element)))))"

text \<open>
  The dispatch of \<^verbatim>\<open>translate\<close> on the class of the terminal. The translation of
  geometric quantities is \<^verbatim>\<open>tsfc.geometric.translate\<close>, a parameter.
  \<^verbatim>\<open>argument_indices[terminal.number()]\<close> raises \<^verbatim>\<open>IndexError\<close> out of range.
\<close>

fun restriction_multiindex :: "restriction \<Rightarrow> index list" where
  "restriction_multiindex NoRestriction = []"
| "restriction_multiindex Plus = [IntIndex 0]"
| "restriction_multiindex Minus = [IntIndex 1]"

definition translate ::
  "gem_module \<Rightarrow> (terminal \<Rightarrow> modified_terminal \<Rightarrow> Translator \<Rightarrow> error + gem) \<Rightarrow>
   terminal \<Rightarrow> modified_terminal \<Rightarrow> Translator \<Rightarrow> error + gem" where
  "translate G geometric_translate term mt params =
     (case term of
        QuadratureWeight \<Rightarrow> Inr (gem_Indexed G (weights params) [quadrature_index params])
      | GeometricQuantity _ \<Rightarrow> geometric_translate term mt params
      | Argument ufl_element number \<Rightarrow>
          if number < length (argument_indices params) then
            iterate_shape G mt
              (argument_callback G params mt (argument_indices params ! number))
          else Inl IndexError
      | Coefficient ufl_element _ \<Rightarrow>
          let kernel_arg = coefficient_mapper params term in
          if family ufl_element = ''Real'' then
            if local_derivatives mt = 0 then Inr kernel_arg else Inl AssertionError
          else
            let ka = gem_partial_indexed G kernel_arg (restriction_multiindex (mt_restriction mt)) in
            iterate_shape G mt (coefficient_callback G params ufl_element mt ka)
      | OtherTerminal _ \<Rightarrow> Inl AssertionError)"


section \<open>\<^verbatim>\<open>process\<close>\<close>

text \<open>
  The symbolic collaborators, which are not part of \<^verbatim>\<open>fem.py\<close>, as parameters over
  a type \<open>'e\<close> of UFL expressions: \<^verbatim>\<open>simplify_abs\<close>; the list that
  \<^verbatim>\<open>map_expr_dag(CollectModifiedTerminals(modified_terminals), integrand)\<close> fills;
  \<^verbatim>\<open>analyse_modified_terminal\<close>; \<^verbatim>\<open>map_expr_dag(PickRestriction(*rs), integrand)\<close>;
  the traversal \<^verbatim>\<open>map_expr_dag\<close> of one expression by the translator, given the
  translator's handler for modified terminals; and \<^verbatim>\<open>geometric.translate\<close>.
\<close>

record 'e frontend =
  simplify_abs :: "'e \<Rightarrow> 'e"
  collect_modified_terminals :: "'e \<Rightarrow> 'e list"
  analyse_modified_terminal :: "'e \<Rightarrow> modified_terminal"
  pick_restriction :: "restriction list \<Rightarrow> 'e \<Rightarrow> 'e"
  map_expr_dag :: "('e \<Rightarrow> error + gem) \<Rightarrow> 'e \<Rightarrow> error + gem"
  geometric_translate :: "terminal \<Rightarrow> modified_terminal \<Rightarrow> Translator \<Rightarrow> error + gem"

text \<open>\<^verbatim>\<open>Translator.modified_terminal\<close>.\<close>

definition Translator_modified_terminal ::
  "gem_module \<Rightarrow> 'e frontend \<Rightarrow> Translator \<Rightarrow> 'e \<Rightarrow> error + gem" where
  "Translator_modified_terminal G F self o' =
     (let mt = analyse_modified_terminal F o' in
      translate G (geometric_translate F) (mt_terminal mt) mt self)"

text \<open>
  Modelled from the spec: \<^verbatim>\<open>map_expr_dags\<close> of UFL is not among the sources. It runs
  the translator over every expression and returns the list of output DAGs in the same
  order.
\<close>

definition map_expr_dags ::
  "'e frontend \<Rightarrow> ('e \<Rightarrow> error + gem) \<Rightarrow> 'e list \<Rightarrow> error + gem list" where
  "map_expr_dags F handler expressions = sequence (map (map_expr_dag F handler) expressions)"

text \<open>
  \<^verbatim>\<open>max_derivs[ufl_element] = max(mt.local_derivatives, max_derivs[ufl_element])\<close> on a
  \<^verbatim>\<open>defaultdict(int)\<close>, as an association list in order of first insertion.
\<close>

fun max_derivs_update :: "ufl_element \<Rightarrow> nat \<Rightarrow> (ufl_element \<times> nat) list \<Rightarrow> (ufl_element \<times> nat) list" where
  "max_derivs_update e d [] = [(e, max d 0)]"
| "max_derivs_update e d ((e', d') # rest) =
     (if e = e' then (e', max d d') # rest else (e', d') # max_derivs_update e d rest)"

definition collect_max_derivs :: "modified_terminal list \<Rightarrow> (ufl_element \<times> nat) list" where
  "collect_max_derivs mts =
     fold (\<lambda>mt max_derivs.
             case terminal_element (mt_terminal mt) of
               None \<Rightarrow> max_derivs
             | Some ufl_element \<Rightarrow> max_derivs_update ufl_element (local_derivatives mt) max_derivs)
       mts []"

text \<open>The loop over \<^verbatim>\<open>max_derivs.items()\<close>, skipping the family \<^verbatim>\<open>Real\<close>.\<close>

fun tabulate_all ::
  "backend \<Rightarrow> TabulationManager \<Rightarrow> (ufl_element \<times> nat) list \<Rightarrow> error + TabulationManager" where
  "tabulate_all B tm [] = Inr tm"
| "tabulate_all B tm ((ufl_element, max_deriv) # rest) =
     (if family ufl_element \<noteq> ''Real'' then
        (case TabulationManager_tabulate B tm ufl_element max_deriv of
           Inl e \<Rightarrow> Inl e
         | Inr tm' \<Rightarrow> tabulate_all B tm' rest)
      else tabulate_all B tm rest)"

text \<open>Lines 310--329: up to the tabulation manager with all tables collected.\<close>

definition process_tabulation ::
  "backend \<Rightarrow> 'e frontend \<Rightarrow> string \<Rightarrow> ufl_cell \<Rightarrow> real list list \<Rightarrow> 'e \<Rightarrow> error + TabulationManager" where
  "process_tabulation B F integral_type0 cell pts integrand0 =
     (let integrand = simplify_abs F integrand0;
          modified_terminals = collect_modified_terminals F integrand;
          max_derivs = collect_max_derivs (map (analyse_modified_terminal F) modified_terminals)
      in case TabulationManager_init B integral_type0 cell pts of
           Inl e \<Rightarrow> Inl e
         | Inr tm \<Rightarrow> tabulate_all B tm max_derivs)"

text \<open>Lines 331--336: the integrand variants.\<close>

definition process_expressions :: "'e frontend \<Rightarrow> string \<Rightarrow> index list \<Rightarrow> 'e \<Rightarrow> 'e list" where
  "process_expressions F integral_type0 ais integrand =
     (if startswith integral_type0 ''interior_facet'' then
        map (\<lambda>rs. pick_restriction F rs integrand) (product_repeat [Plus, Minus] (length ais))
      else [integrand])"

definition process ::
  "backend \<Rightarrow> gem_module \<Rightarrow> 'e frontend \<Rightarrow> string \<Rightarrow> ufl_cell \<Rightarrow> real list list \<Rightarrow> real list \<Rightarrow>
   index \<Rightarrow> index list \<Rightarrow> 'e \<Rightarrow> (terminal \<Rightarrow> gem) \<Rightarrow> (ufl_element \<Rightarrow> index) \<Rightarrow> error + gem list" where
  "process B G F integral_type0 cell pts ws qi ais integrand0 cm ic =
     (case process_tabulation B F integral_type0 cell pts integrand0 of
        Inl e \<Rightarrow> Inl e
      | Inr tm \<Rightarrow>
          let expressions = process_expressions F integral_type0 ais (simplify_abs F integrand0);
              translator = Translator_init G tm ws qi ais cm ic
          in map_expr_dags F (Translator_modified_terminal G F translator) expressions)"

section \<open>Concrete collaborators\<close>

text \<open>
  Instances of the parameters, on which the definitions above can be run. In
  \<open>gem_nodes\<close> every callable of \<^verbatim>\<open>gem\<close> builds the node of its name and nothing else.
\<close>

fun table_shape :: "table \<Rightarrow> nat list" where
  "table_shape (Array1 r) = [length r]"
| "table_shape (Array2 m) = [length m, (case m of [] \<Rightarrow> 0 | r # _ \<Rightarrow> length r)]"
| "table_shape (Array3 c) =
     [length c,
      (case c of [] \<Rightarrow> 0 | m # _ \<Rightarrow> length m),
      (case c of [] \<Rightarrow> 0 | m # _ \<Rightarrow> (case m of [] \<Rightarrow> 0 | r # _ \<Rightarrow> length r))]"

fun shape :: "gem \<Rightarrow> nat list" where
  "shape (Literal t) = table_shape t"
| "shape (Zero s) = s"
| "shape (Variable _ s) = s"
| "shape (ListTensor _ s) = s"
| "shape (PartialIndexed a is) = drop (length is) (shape a)"
| "shape _ = []"

definition gem_nodes :: gem_module where
  "gem_nodes =
     \<lparr>gem_Literal = Literal,
      gem_Zero = Zero [],
      gem_Variable = Variable,
      gem_VariableIndex = VariableIndex,
      gem_Indexed = Indexed,
      gem_Sum = Sum,
      gem_Product = Product,
      gem_IndexSum = IndexSum,
      gem_ListTensor = ListTensor,
      gem_partial_indexed = PartialIndexed,
      gem_shape = shape\<rparr>"

text \<open>
  A one-dimensional element of degree one on the interval, with two basis functions;
  FIAT's tabulation of it at points of the interval, with the derivatives up to the
  order asked for; and a tolerance test in the manner of \<^verbatim>\<open>numpy.allclose\<close>.
\<close>

definition P1 :: ufl_element where
  "P1 = \<lparr>family = ''Lagrange'', reference_value_size = 1, symmetry_size = 0,
         topological_dimension = 1, spanning_degree = 1, space_dimension = 2\<rparr>"

definition R0 :: ufl_element where
  "R0 = \<lparr>family = ''Real'', reference_value_size = 1, symmetry_size = 0,
         topological_dimension = 1, spanning_degree = 0, space_dimension = 1\<rparr>"

definition interval :: ufl_cell where
  "interval = \<lparr>num_facets = 2, base_num_facets = 0\<rparr>"

definition P1_tabulate :: "ufl_element \<Rightarrow> nat \<Rightarrow> real list list \<Rightarrow> (nat list \<times> real list) list" where
  "P1_tabulate e order pts =
     ([0], map (\<lambda>x. 1 - hd x) pts @ map (\<lambda>x. hd x) pts) #
     (if 1 \<le> order then [([1], map (\<lambda>x. - 1) pts @ map (\<lambda>x. 1) pts)] else [])"

definition test_backend :: backend where
  "test_backend =
     \<lparr>PRECISION = 15,
      fiat_tabulate = P1_tabulate,
      get_facet_transform = (\<lambda>cell entity x. [real entity]),
      get_horiz_facet_transform = (\<lambda>cell entity x. x),
      get_vert_facet_transform = (\<lambda>cell entity x. x),
      isclose = (\<lambda>a b. \<bar>a - b\<bar> \<le> 1 / 10 ^ 8 + \<bar>b\<bar> / 10 ^ 5)\<rparr>"

text \<open>
  A small expression language for the symbolic side: a modified terminal, or a sum of
  two expressions. \<open>test_frontend\<close> collects the terminals from left to right,
  restricts every unrestricted terminal to the first label of a combination, and
  translates a sum to a \<^verbatim>\<open>gem.Sum\<close> node.
\<close>

datatype expr = MT modified_terminal | Plus_expr expr expr

fun expr_terminals :: "expr \<Rightarrow> expr list" where
  "expr_terminals (MT mt) = [MT mt]"
| "expr_terminals (Plus_expr a b) = expr_terminals a @ expr_terminals b"

fun expr_restrict :: "restriction list \<Rightarrow> expr \<Rightarrow> expr" where
  "expr_restrict rs (MT mt) =
     (case rs of
        r # _ \<Rightarrow> MT (if mt_restriction mt = NoRestriction then mt\<lparr>mt_restriction := r\<rparr> else mt)
      | [] \<Rightarrow> MT mt)"
| "expr_restrict rs (Plus_expr a b) = Plus_expr (expr_restrict rs a) (expr_restrict rs b)"

fun expr_analyse :: "expr \<Rightarrow> modified_terminal" where
  "expr_analyse (MT mt) = mt"
| "expr_analyse (Plus_expr a b) = expr_analyse a"

fun expr_map_dag :: "(expr \<Rightarrow> error + gem) \<Rightarrow> expr \<Rightarrow> error + gem" where
  "expr_map_dag h (MT mt) = h (MT mt)"
| "expr_map_dag h (Plus_expr a b) =
     (case expr_map_dag h a of
        Inl e \<Rightarrow> Inl e
      | Inr x \<Rightarrow> (case expr_map_dag h b of Inl e \<Rightarrow> Inl e | Inr y \<Rightarrow> Inr (Sum x y)))"

definition test_frontend :: "expr frontend" where
  "test_frontend =
     \<lparr>simplify_abs = (\<lambda>e. e),
      collect_modified_terminals = expr_terminals,
      analyse_modified_terminal = expr_analyse,
      pick_restriction = expr_restrict,
      map_expr_dag = expr_map_dag,
      geometric_translate = (\<lambda>t mt params. Inl AssertionError)\<rparr>"


text \<open>Modified terminals and an integrand to run the translation on.\<close>

definition argument_mt :: modified_terminal where
  "argument_mt = \<lparr>mt_terminal = Argument P1 0, mt_restriction = NoRestriction,
                    local_derivatives = 0, ufl_shape = []\<rparr>"

definition weight_mt :: modified_terminal where
  "weight_mt = \<lparr>mt_terminal = QuadratureWeight, mt_restriction = NoRestriction,
                  local_derivatives = 0, ufl_shape = []\<rparr>"

definition real_mt :: modified_terminal where
  "real_mt = \<lparr>mt_terminal = Coefficient R0 0, mt_restriction = NoRestriction,
                local_derivatives = 0, ufl_shape = []\<rparr>"

definition test_integrand :: expr where
  "test_integrand = Plus_expr (MT argument_mt) (MT weight_mt)"

definition empty_manager :: "string \<Rightarrow> TabulationManager" where
  "empty_manager it = \<lparr>integral_type = it, points = [], tabulators = [], tables = Map.empty\<rparr>"

definition test_translator :: "TabulationManager \<Rightarrow> Translator" where
  "test_translator tm =
     Translator_init gem_nodes tm [1 / 2, 1 / 2] (Index 0) [Index 1] (\<lambda>t. Variable ''w'' [2]) (\<lambda>e. Index 3)"


text \<open>
  A vector-valued element of degree one on a triangle and the gradient of an argument
  on it: reference value size two, one derivative, value shape \<open>(2, 2)\<close>.
\<close>

definition P1_vector :: ufl_element where
  "P1_vector = \<lparr>family = ''Lagrange'', reference_value_size = 2, symmetry_size = 0,
                topological_dimension = 2, spanning_degree = 1, space_dimension = 6\<rparr>"

definition gradient_mt :: modified_terminal where
  "gradient_mt = \<lparr>mt_terminal = Argument P1_vector 0, mt_restriction = NoRestriction,
                    local_derivatives = 1, ufl_shape = [2, 2]\<rparr>"


section \<open>Zero folding and evaluation of the intermediate representation\<close>








text \<open>
  Modelled from the spec: the meaning of the nodes is that of index algebra, which
  \<^verbatim>\<open>gem\<close> (not among the sources) defines. A value is a scalar or a tensor of values;
  an environment gives the values of the variables, the current values of the indices
  and their extents (the extent of a \<^verbatim>\<open>gem.Index\<close> is the dimension it indexes). An
  index-sum adds up its body over the extent of its index; an ill-formed node has no
  value.
\<close>

datatype tensor = Scalar real | Tensor "tensor list"





fun tensor_index :: "tensor \<Rightarrow> nat list \<Rightarrow> tensor option" where
  "tensor_index t [] = Some t"
| "tensor_index (Scalar x) (i # is) = None"
| "tensor_index (Tensor ts) (i # is) = (if i < length ts then tensor_index (ts ! i) is else None)"













section \<open>Properties\<close>

subsection \<open>Enumeration\<close>

lemma length_product_repeat: "length (product_repeat pool n) = length pool ^ n"
proof (induction n)
  case 0
  show ?case by simp
next
  case (Suc n)
  have "length (product_repeat pool (Suc n)) =
        sum_list (map (\<lambda>x. length (product_repeat pool n)) pool)"
    by (simp add: length_concat comp_def)
  also have "\<dots> = length pool * length (product_repeat pool n)"
    by (simp add: sum_list_triv)
  finally show ?case using Suc by simp
qed

lemma set_product_repeat:
  "set (product_repeat pool n) = {ys. length ys = n \<and> set ys \<subseteq> set pool}"
proof (induction n)
  case 0
  show ?case by auto
next
  case (Suc n)
  show ?case
  proof (rule set_eqI)
    fix ys
    show "ys \<in> set (product_repeat pool (Suc n)) \<longleftrightarrow>
          ys \<in> {ys. length ys = Suc n \<and> set ys \<subseteq> set pool}"
      using Suc by (cases ys) auto
  qed
qed

lemma sum_list_indicator:
  "sum_list (map (\<lambda>d. if x = d then 1 else 0) [0..<tdim]) = (if x < tdim then 1 else (0::nat))"
  by (induction tdim) auto

lemma sum_list_flat_index:
  "set xs \<subseteq> {0..<tdim} \<Longrightarrow> sum_list (flat_index tdim xs) = length xs"
proof (induction xs)
  case Nil
  show ?case by (simp add: flat_index_def)
next
  case (Cons x xs)
  have "sum_list (flat_index tdim (x # xs)) =
        sum_list (map (\<lambda>d. (if x = d then 1 else 0) + count_list xs d) [0..<tdim])"
    unfolding flat_index_def by (rule arg_cong [where f = sum_list]) auto
  also have "\<dots> = sum_list (map (\<lambda>d. if x = d then 1 else 0) [0..<tdim]) +
                   sum_list (flat_index tdim xs)"
    by (simp add: sum_list_addf flat_index_def)
  finally show ?case using Cons by (simp add: sum_list_indicator)
qed

text \<open>
  C5. The canonical multi-index does not depend on the order of the derivative
  sequence: two sequences that are permutations of each other (equal as multisets)
  get the same key from \<open>flat_index\<close>, for every topological dimension; and for a
  sequence over the spatial dimensions \<open>0..<tdim\<close> the entries of the key sum to the
  length of the sequence, the derivative order.
\<close>

theorem flat_index_permutation_invariant:
  "(mset xs = mset ys \<longrightarrow> flat_index tdim xs = flat_index tdim ys) \<and>
   (set xs \<subseteq> {0..<tdim} \<longrightarrow>
      length (flat_index tdim xs) = tdim \<and> sum_list (flat_index tdim xs) = length xs)"
proof (intro conjI impI)
  assume "mset xs = mset ys"
  then have "count_list xs d = count_list ys d" for d
    by (metis count_mset)
  then show "flat_index tdim xs = flat_index tdim ys"
    by (simp add: flat_index_def)
next
  show "length (flat_index tdim xs) = tdim"
    by (simp add: flat_index_def)
next
  assume "set xs \<subseteq> {0..<tdim}"
  then show "sum_list (flat_index tdim xs) = length xs"
    by (rule sum_list_flat_index)
qed

theorem flat_index_permutation_invariant_witness:
  "mset [0, 1, 0::nat] = mset [1, 0, 0] \<and> set [0, 1, 0::nat] \<subseteq> {0..<2} \<and>
   flat_index 2 [0, 1, 0] = [2, 1] \<and> flat_index 2 [1, 0, 0] = [2, 1] \<and>
   sum_list (flat_index 2 [0, 1, 0]) = length [0, 1, 0::nat]"
proof -
  have p: "mset [0, 1, 0::nat] = mset [1, 0, 0]" by simp
  have s: "set [0, 1, 0::nat] \<subseteq> {0..<2}" by simp
  have k: "flat_index 2 [0, 1, 0] = [2, 1]" by code_simp
  from flat_index_permutation_invariant [of "[0, 1, 0]" "[1, 0, 0]" 2] p s k
  show ?thesis by simp
qed

subsection \<open>Snapping\<close>

lemma snap_fixed_values:
  assumes "eps \<le> 1 / 2"
  shows "snap eps 0 = 0" and "snap eps 1 = 1" and "snap eps (- 1) = - 1"
    and "snap eps (1 / 2) = 1 / 2" and "snap eps (- (1 / 2)) = - (1 / 2)"
  using assms by (simp_all add: snap_def)

lemma snap_range:
  "snap eps x = x \<or> snap eps x = 0 \<or> snap eps x = 1 \<or> snap eps x = - 1 \<or>
   snap eps x = 1 / 2 \<or> snap eps x = - (1 / 2)"
proof -
  define x1 where "x1 = (if \<bar>x\<bar> < eps then 0 else x)"
  define x2 where "x2 = (if \<bar>x1 - 1\<bar> < eps then 1 else x1)"
  define x3 where "x3 = (if \<bar>x2 + 1\<bar> < eps then - 1 else x2)"
  define x4 where "x4 = (if \<bar>x3 - 1 / 2\<bar> < eps then 1 / 2 else x3)"
  define x5 where "x5 = (if \<bar>x4 + 1 / 2\<bar> < eps then - (1 / 2) else x4)"
  have s: "snap eps x = x5"
    by (simp only: snap_def Let_def x1_def x2_def x3_def x4_def x5_def)
  have 1: "x1 = x \<or> x1 = 0" by (simp add: x1_def)
  have 2: "x2 = x1 \<or> x2 = 1" by (simp add: x2_def)
  have 3: "x3 = x2 \<or> x3 = - 1" by (simp add: x3_def)
  have 4: "x4 = x3 \<or> x4 = 1 / 2" by (simp add: x4_def)
  have 5: "x5 = x4 \<or> x5 = - (1 / 2)" by (simp add: x5_def)
  from 1 2 3 4 5 show ?thesis unfolding s by metis
qed

lemma snap_idem: "eps \<le> 1 / 2 \<Longrightarrow> snap eps (snap eps x) = snap eps x"
  using snap_range [of eps x] snap_fixed_values [of eps] by metis

lemma epsilon_small: "2 \<le> prec \<Longrightarrow> epsilon prec \<le> 1 / 2"
proof -
  assume "2 \<le> prec"
  then obtain k where k: "prec - 1 = Suc k"
    by (cases "prec - 1") auto
  have "(1::real) \<le> 10 ^ k"
    by (rule one_le_power) simp
  then have "(1::real) \<le> 5 * 10 ^ k" by linarith
  then show ?thesis
    unfolding epsilon_def k by (simp add: field_simps)
qed

text \<open>
  With a tolerance of a whole unit (\<^verbatim>\<open>PRECISION = 1\<close>) the five targets are within
  tolerance of each other and the assignments cascade: \<open>-1\<close> is snapped to \<open>-1/2\<close>, and
  \<open>-1/2\<close> to \<open>1/2\<close>. The idempotence below is therefore stated for tolerances of at
  most one half.
\<close>

lemma snap_cascade_at_unit_tolerance:
  "snap (epsilon 1) (- 1) = - (1 / 2) \<and> snap (epsilon 1) (- (1 / 2)) = 1 / 2"
  by (simp add: snap_def epsilon_def)

text \<open>
  C6. Snapping is idempotent: when the tolerance is at most one half (any
  \<^verbatim>\<open>PRECISION\<close> of at least two digits, so \<open>epsilon \<le> 0.1\<close>), snapping a table that has
  already been snapped leaves every entry unchanged.
\<close>

theorem snap_table_idempotent:
  "2 \<le> prec \<Longrightarrow>
   snap_table (epsilon prec) (snap_table (epsilon prec) table) =
   snap_table (epsilon prec) table"
proof -
  assume "2 \<le> prec"
  then have "epsilon prec \<le> 1 / 2" by (rule epsilon_small)
  then have "snap (epsilon prec) (snap (epsilon prec) x) = snap (epsilon prec) x" for x
    by (rule snap_idem)
  then show ?thesis by (simp add: snap_table_def)
qed

theorem snap_table_idempotent_witness:
  "(2::nat) \<le> 2 \<and>
   snap_table (epsilon 2) [[1 / 20, 19 / 20], [1 / 4, - (11 / 20)]] = [[0, 1], [1 / 4, - (1 / 2)]] \<and>
   snap_table (epsilon 2) [[0, 1], [1 / 4, - (1 / 2)]] = [[0, 1], [1 / 4, - (1 / 2)]]"
proof -
  have e: "epsilon 2 = 1 / 10" by (simp add: epsilon_def)
  have a: "snap_table (epsilon 2) [[1 / 20, 19 / 20], [1 / 4, - (11 / 20)]] = [[0, 1], [1 / 4, - (1 / 2)]]"
    unfolding e by (simp add: snap_table_def snap_def)
  from snap_table_idempotent [of 2 "[[1 / 20, 19 / 20], [1 / 4, - (11 / 20)]]"] a
  show ?thesis by simp
qed

subsection \<open>Fallible loops\<close>

lemma sequence_Inr_map: "sequence xs = Inr vs \<Longrightarrow> xs = map Inr vs"
  by (induction xs arbitrary: vs) (auto split: sum.splits)

lemma sequence_Inr_length: "sequence xs = Inr vs \<Longrightarrow> length vs = length xs"
  by (drule sequence_Inr_map) simp

lemma sequence_map_Inr: "sequence (map Inr vs) = Inr vs"
  by (induction vs) auto

subsection \<open>Facet selection\<close>

lemma facet_exterior:
  "it \<in> set [''exterior_facet'', ''exterior_facet_vert''] \<Longrightarrow>
   facet (Translator_init G (tm\<lparr>integral_type := it\<rparr>) ws qi ais cm ic) =
   Some [NoRestriction \<mapsto> gem_VariableIndex G (gem_Indexed G (gem_Variable G ''facet'' [1]) [IntIndex 0])]"
  by (auto simp: Translator_init_def Let_def)

lemma facet_interior:
  "it \<in> set [''interior_facet'', ''interior_facet_vert''] \<Longrightarrow>
   facet (Translator_init G (tm\<lparr>integral_type := it\<rparr>) ws qi ais cm ic) =
   Some [Plus \<mapsto> gem_VariableIndex G (gem_Indexed G (gem_Variable G ''facet'' [2]) [IntIndex 0]),
         Minus \<mapsto> gem_VariableIndex G (gem_Indexed G (gem_Variable G ''facet'' [2]) [IntIndex 1])]"
  by (auto simp: Translator_init_def Let_def)

lemma facet_bottom:
  "facet (Translator_init G (tm\<lparr>integral_type := ''exterior_facet_bottom''\<rparr>) ws qi ais cm ic) =
   Some [NoRestriction \<mapsto> IntIndex 0]"
  by (simp add: Translator_init_def Let_def)

lemma facet_top:
  "facet (Translator_init G (tm\<lparr>integral_type := ''exterior_facet_top''\<rparr>) ws qi ais cm ic) =
   Some [NoRestriction \<mapsto> IntIndex 1]"
  by (simp add: Translator_init_def Let_def)

lemma facet_horiz:
  "facet (Translator_init G (tm\<lparr>integral_type := ''interior_facet_horiz''\<rparr>) ws qi ais cm ic) =
   Some [Plus \<mapsto> IntIndex 1, Minus \<mapsto> IntIndex 0]"
  by (simp add: Translator_init_def Let_def)

lemma select_facet_cell:
  "select_facet G (Translator_init G (tm\<lparr>integral_type := ''cell''\<rparr>) ws qi ais cm ic) tensor r = Inr tensor"
  by (simp add: select_facet_def Translator_init_def Let_def)

lemma select_facet_lookup:
  "translator_integral_type self \<noteq> ''cell'' \<Longrightarrow> facet self = Some d \<Longrightarrow> d r = Some f \<Longrightarrow>
   select_facet G self tensor r = Inr (gem_partial_indexed G tensor [f])"
  by (simp add: select_facet_def)

text \<open>
  C10. The facet assignment of the translator. The bottom facet type maps the
  unrestricted value to facet 0 and the top one to facet 1; the horizontal interior
  type maps \<open>+\<close> to facet 1 and \<open>-\<close> to facet 0; the exterior (and vertical exterior)
  types index the one-element variable \<open>facet\<close> at slot 0; the interior (and
  vertical interior) types index the two-element variable \<open>facet\<close> at slot 0 for \<open>+\<close>
  and slot 1 for \<open>-\<close>; and for the type \<open>cell\<close> \<open>select_facet\<close> returns its tensor
  unchanged for every restriction.
\<close>

theorem translator_facet_assignment:
  "facet (Translator_init G (tm\<lparr>integral_type := ''exterior_facet_bottom''\<rparr>) ws qi ais cm ic) =
     Some [NoRestriction \<mapsto> IntIndex 0] \<and>
   facet (Translator_init G (tm\<lparr>integral_type := ''exterior_facet_top''\<rparr>) ws qi ais cm ic) =
     Some [NoRestriction \<mapsto> IntIndex 1] \<and>
   facet (Translator_init G (tm\<lparr>integral_type := ''interior_facet_horiz''\<rparr>) ws qi ais cm ic) =
     Some [Plus \<mapsto> IntIndex 1, Minus \<mapsto> IntIndex 0] \<and>
   facet (Translator_init G (tm\<lparr>integral_type := ''exterior_facet''\<rparr>) ws qi ais cm ic) =
     Some [NoRestriction \<mapsto> gem_VariableIndex G (gem_Indexed G (gem_Variable G ''facet'' [1]) [IntIndex 0])] \<and>
   facet (Translator_init G (tm\<lparr>integral_type := ''exterior_facet_vert''\<rparr>) ws qi ais cm ic) =
     Some [NoRestriction \<mapsto> gem_VariableIndex G (gem_Indexed G (gem_Variable G ''facet'' [1]) [IntIndex 0])] \<and>
   facet (Translator_init G (tm\<lparr>integral_type := ''interior_facet''\<rparr>) ws qi ais cm ic) =
     Some [Plus \<mapsto> gem_VariableIndex G (gem_Indexed G (gem_Variable G ''facet'' [2]) [IntIndex 0]),
           Minus \<mapsto> gem_VariableIndex G (gem_Indexed G (gem_Variable G ''facet'' [2]) [IntIndex 1])] \<and>
   facet (Translator_init G (tm\<lparr>integral_type := ''interior_facet_vert''\<rparr>) ws qi ais cm ic) =
     Some [Plus \<mapsto> gem_VariableIndex G (gem_Indexed G (gem_Variable G ''facet'' [2]) [IntIndex 0]),
           Minus \<mapsto> gem_VariableIndex G (gem_Indexed G (gem_Variable G ''facet'' [2]) [IntIndex 1])] \<and>
   select_facet G (Translator_init G (tm\<lparr>integral_type := ''interior_facet_horiz''\<rparr>) ws qi ais cm ic) tensor Plus =
     Inr (gem_partial_indexed G tensor [IntIndex 1]) \<and>
   select_facet G (Translator_init G (tm\<lparr>integral_type := ''interior_facet_horiz''\<rparr>) ws qi ais cm ic) tensor Minus =
     Inr (gem_partial_indexed G tensor [IntIndex 0]) \<and>
   select_facet G (Translator_init G (tm\<lparr>integral_type := ''cell''\<rparr>) ws qi ais cm ic) tensor r = Inr tensor"
proof (intro conjI)
  show "select_facet G (Translator_init G (tm\<lparr>integral_type := ''interior_facet_horiz''\<rparr>) ws qi ais cm ic) tensor Plus =
        Inr (gem_partial_indexed G tensor [IntIndex 1])"
    by (rule select_facet_lookup [OF _ facet_horiz]) (simp_all add: Translator_init_def Let_def)
  show "select_facet G (Translator_init G (tm\<lparr>integral_type := ''interior_facet_horiz''\<rparr>) ws qi ais cm ic) tensor Minus =
        Inr (gem_partial_indexed G tensor [IntIndex 0])"
    by (rule select_facet_lookup [OF _ facet_horiz]) (simp_all add: Translator_init_def Let_def)
qed (simp_all add: Translator_init_def Let_def select_facet_def)

subsection \<open>Coefficients of the family Real\<close>

text \<open>
  C9. A coefficient whose element has the family \<^verbatim>\<open>Real\<close> is translated to the value
  of the coefficient mapper, unchanged: whatever the restriction, the tables of the
  tabulation manager and the callables of \<^verbatim>\<open>gem\<close> are, the result is that value when
  the local derivative order is zero, and the assertion fails otherwise.
\<close>

theorem translate_real_coefficient:
  "family e = ''Real'' \<Longrightarrow>
   translate G gt (Coefficient e n) mt params =
     (if local_derivatives mt = 0 then Inr (coefficient_mapper params (Coefficient e n))
      else Inl AssertionError)"
  by (simp add: translate_def)

theorem translate_real_coefficient_witness:
  "family R0 = ''Real'' \<and>
   translate gem_nodes (geometric_translate test_frontend) (Coefficient R0 0) real_mt
     (test_translator (empty_manager ''cell'')) = Inr (Variable ''w'' [2])"
proof -
  have f: "family R0 = ''Real''" by (simp add: R0_def)
  have d: "local_derivatives real_mt = 0" by (simp add: real_mt_def)
  have c: "coefficient_mapper (test_translator (empty_manager ''cell'')) (Coefficient R0 0) = Variable ''w'' [2]"
    by (simp add: test_translator_def Translator_init_def Let_def)
  from translate_real_coefficient [OF f, of gem_nodes "geometric_translate test_frontend" 0 real_mt
      "test_translator (empty_manager ''cell'')"] f d c
  show ?thesis by simp
qed

subsection \<open>Unsupported integral types\<close>

lemma TabulationManager_init_unsupported:
  "it \<notin> set [''cell'', ''exterior_facet'', ''interior_facet'', ''exterior_facet_bottom'',
               ''exterior_facet_top'', ''interior_facet_horiz'', ''exterior_facet_vert'',
               ''interior_facet_vert''] \<Longrightarrow>
   TabulationManager_init B it cell pts = Inl (not_supported it)"
  by (simp add: TabulationManager_init_def Let_def)

lemma TabulationManager_init_supported:
  "it \<in> set [''cell'', ''exterior_facet'', ''interior_facet'', ''exterior_facet_bottom'',
               ''exterior_facet_top'', ''interior_facet_horiz'', ''exterior_facet_vert'',
               ''interior_facet_vert''] \<Longrightarrow>
   \<exists>tm. TabulationManager_init B it cell pts = Inr tm \<and> integral_type tm = it \<and> tables tm = Map.empty"
  by (auto simp: TabulationManager_init_def Let_def)

text \<open>
  C8. For an integral type outside the eight supported ones, the construction of the
  tabulation manager raises \<^verbatim>\<open>NotImplementedError\<close>, and so does \<open>process\<close>, whatever
  the collaborators are: the result depends neither on what FIAT tabulates (no table
  has been asked for or stored) nor on the translation of any terminal.
\<close>

theorem process_unsupported_integral_type:
  "it \<notin> set [''cell'', ''exterior_facet'', ''interior_facet'', ''exterior_facet_bottom'',
               ''exterior_facet_top'', ''interior_facet_horiz'', ''exterior_facet_vert'',
               ''interior_facet_vert''] \<Longrightarrow>
   TabulationManager_init B it cell pts = Inl (not_supported it) \<and>
   process_tabulation B F it cell pts integrand = Inl (not_supported it) \<and>
   process B G F it cell pts ws qi ais integrand cm ic = Inl (not_supported it)"
proof -
  assume "it \<notin> set [''cell'', ''exterior_facet'', ''interior_facet'', ''exterior_facet_bottom'',
               ''exterior_facet_top'', ''interior_facet_horiz'', ''exterior_facet_vert'',
               ''interior_facet_vert'']"
  then have i: "TabulationManager_init B it cell pts = Inl (not_supported it)"
    by (rule TabulationManager_init_unsupported)
  then have t: "process_tabulation B F it cell pts integrand = Inl (not_supported it)"
    by (simp add: process_tabulation_def Let_def)
  then have "process B G F it cell pts ws qi ais integrand cm ic = Inl (not_supported it)"
    by (simp add: process_def)
  with i t show ?thesis by simp
qed

theorem process_unsupported_integral_type_witness:
  "''vertex'' \<notin> set [''cell'', ''exterior_facet'', ''interior_facet'', ''exterior_facet_bottom'',
               ''exterior_facet_top'', ''interior_facet_horiz'', ''exterior_facet_vert'',
               ''interior_facet_vert''] \<and>
   process test_backend gem_nodes test_frontend ''vertex'' interval [[0], [1]] [1 / 2, 1 / 2]
     (Index 0) [Index 1] test_integrand (\<lambda>t. Variable ''w'' [2]) (\<lambda>e. Index 3) =
   Inl (NotImplementedError ''integral type vertex not supported'')"
proof -
  have n: "''vertex'' \<notin> set [''cell'', ''exterior_facet'', ''interior_facet'', ''exterior_facet_bottom'',
               ''exterior_facet_top'', ''interior_facet_horiz'', ''exterior_facet_vert'',
               ''interior_facet_vert'']" by simp
  from process_unsupported_integral_type [OF n, of test_backend interval "[[0], [1]]" test_frontend
      test_integrand gem_nodes "[1 / 2, 1 / 2]" "Index 0" "[Index 1]" "\<lambda>t. Variable ''w'' [2]" "\<lambda>e. Index 3"] n
  show ?thesis by (simp add: not_supported_def)
qed

subsection \<open>The count of \<^verbatim>\<open>iterate_shape\<close>\<close>

lemma length_ordered_derivs: "length (ordered_derivs tdim ld) = tdim ^ ld"
  by (simp add: ordered_derivs_def length_product_repeat)

lemma length_shape_keys:
  "length (shape_keys e ld) = reference_value_size e * topological_dimension e ^ ld"
  by (simp add: shape_keys_def length_concat comp_def flat_derivs_def length_ordered_derivs
      sum_list_triv)

text \<open>
  C4. For a modified terminal of a form argument, \<open>iterate_shape\<close> calls the
  callback once per key, and the number of keys is the reference value size of the
  element times the number of ordered derivative sequences of the local derivative
  order over the topological dimension. When the callbacks succeed, the number of
  results is that number; the results are reassembled only when it equals the
  product of the dimensions of the value shape, and an \<^verbatim>\<open>AssertionError\<close> is raised
  otherwise. So whenever \<open>iterate_shape\<close> returns, the two numbers are equal.
\<close>

theorem iterate_shape_count:
  "terminal_element (mt_terminal mt) = Some e \<Longrightarrow>
   length (ordered_derivs (topological_dimension e) (local_derivatives mt)) =
     topological_dimension e ^ local_derivatives mt \<and>
   length (shape_keys e (local_derivatives mt)) =
     reference_value_size e * length (ordered_derivs (topological_dimension e) (local_derivatives mt)) \<and>
   (\<forall>result. sequence (map callback (shape_keys e (local_derivatives mt))) = Inr result \<longrightarrow>
      length result =
        reference_value_size e * length (ordered_derivs (topological_dimension e) (local_derivatives mt)) \<and>
      (length result \<noteq> prod_list (ufl_shape mt) \<longrightarrow> iterate_shape G mt callback = Inl AssertionError) \<and>
      (length result = prod_list (ufl_shape mt) \<longrightarrow> (\<exists>r. iterate_shape G mt callback = Inr r))) \<and>
   (\<forall>r. iterate_shape G mt callback = Inr r \<longrightarrow>
      reference_value_size e * length (ordered_derivs (topological_dimension e) (local_derivatives mt)) =
        prod_list (ufl_shape mt))"
proof -
  assume e: "terminal_element (mt_terminal mt) = Some e"
  let ?keys = "shape_keys e (local_derivatives mt)"
  let ?n = "reference_value_size e * length (ordered_derivs (topological_dimension e) (local_derivatives mt))"
  have k: "length ?keys = ?n"
    by (simp add: length_shape_keys length_ordered_derivs)
  have len: "length result = ?n" if "sequence (map callback ?keys) = Inr result" for result
    using sequence_Inr_length [OF that] k by simp
  have bad: "iterate_shape G mt callback = Inl AssertionError"
    if "sequence (map callback ?keys) = Inr result" "length result \<noteq> prod_list (ufl_shape mt)" for result
    using that e by (simp add: iterate_shape_def Let_def)
  have good: "\<exists>r. iterate_shape G mt callback = Inr r"
    if "sequence (map callback ?keys) = Inr result" "length result = prod_list (ufl_shape mt)" for result
  proof (cases "ufl_shape mt = []")
    case True
    with that have "length result = 1" by simp
    then obtain r where "result = [r]" by (cases result) auto
    with that e True show ?thesis by (simp add: iterate_shape_def Let_def)
  next
    case False
    with that e show ?thesis by (simp add: iterate_shape_def Let_def)
  qed
  have ret: "?n = prod_list (ufl_shape mt)" if "iterate_shape G mt callback = Inr r" for r
  proof (cases "sequence (map callback ?keys)")
    case (Inl err)
    with that e show ?thesis by (simp add: iterate_shape_def)
  next
    case (Inr result)
    show ?thesis
    proof (rule ccontr)
      assume "?n \<noteq> prod_list (ufl_shape mt)"
      with len [OF Inr] have "length result \<noteq> prod_list (ufl_shape mt)" by simp
      from bad [OF Inr this] that show False by simp
    qed
  qed
  from k len bad good ret show ?thesis
    by (simp add: length_ordered_derivs)
qed

theorem iterate_shape_count_witness:
  "terminal_element (mt_terminal gradient_mt) = Some P1_vector \<and>
   shape_keys P1_vector 1 =
     [(P1_vector, 0, [1, 0]), (P1_vector, 0, [0, 1]), (P1_vector, 1, [1, 0]), (P1_vector, 1, [0, 1])] \<and>
   iterate_shape gem_nodes gradient_mt (\<lambda>key. Inr (Zero [])) =
     Inr (ListTensor [Zero [], Zero [], Zero [], Zero []] [2, 2]) \<and>
   reference_value_size P1_vector * length (ordered_derivs 2 1) = prod_list (ufl_shape gradient_mt) \<and>
   iterate_shape gem_nodes (gradient_mt\<lparr>ufl_shape := [3]\<rparr>) (\<lambda>key. Inr (Zero [])) = Inl AssertionError"
proof -
  have e: "terminal_element (mt_terminal gradient_mt) = Some P1_vector"
    by (simp add: gradient_mt_def)
  have k: "shape_keys P1_vector 1 =
     [(P1_vector, 0, [1, 0]), (P1_vector, 0, [0, 1]), (P1_vector, 1, [1, 0]), (P1_vector, 1, [0, 1])]"
    by code_simp
  have r: "iterate_shape gem_nodes gradient_mt (\<lambda>key. Inr (Zero [])) =
     Inr (ListTensor [Zero [], Zero [], Zero [], Zero []] [2, 2])"
    by code_simp
  have b: "iterate_shape gem_nodes (gradient_mt\<lparr>ufl_shape := [3]\<rparr>) (\<lambda>key. Inr (Zero [])) = Inl AssertionError"
    by code_simp
  have d: "topological_dimension P1_vector = 2" "local_derivatives gradient_mt = 1"
    by (simp_all add: P1_vector_def gradient_mt_def)
  from iterate_shape_count [OF e, of "\<lambda>key. Inr (Zero [])" gem_nodes] r
  have "reference_value_size P1_vector * length (ordered_derivs 2 1) = prod_list (ufl_shape gradient_mt)"
    unfolding d by blast
  with e k r b show ?thesis by simp
qed

subsection \<open>The integrand variants of \<^verbatim>\<open>process\<close>\<close>

lemma distinct_product_repeat: "distinct pool \<Longrightarrow> distinct (product_repeat pool n)"
proof (induction n)
  case 0
  show ?case by simp
next
  case (Suc n)
  have inj: "inj_on (\<lambda>x. map (\<lambda>ys. x # ys) (product_repeat pool n)) (set pool)"
  proof (rule inj_onI)
    fix x y
    assume x: "x \<in> set pool"
      and eq: "map (\<lambda>ys. x # ys) (product_repeat pool n) = map (\<lambda>ys. y # ys) (product_repeat pool n)"
    from x have "0 < length pool" by (cases pool) auto
    then have "0 < length (product_repeat pool n)"
      by (simp add: length_product_repeat)
    then obtain p ps where "product_repeat pool n = p # ps"
      by (cases "product_repeat pool n") auto
    with eq show "x = y" by simp
  qed
  show ?case
    unfolding product_repeat.simps
  proof (rule distinct_concat)
    show "distinct (map (\<lambda>x. map (\<lambda>ys. x # ys) (product_repeat pool n)) pool)"
      using Suc.prems inj by (simp add: distinct_map)
  next
    fix zs
    assume "zs \<in> set (map (\<lambda>x. map (\<lambda>ys. x # ys) (product_repeat pool n)) pool)"
    then show "distinct zs"
      using Suc.IH [OF Suc.prems] by (auto simp: distinct_map inj_on_def)
  next
    fix zs ws
    assume "zs \<in> set (map (\<lambda>x. map (\<lambda>ys. x # ys) (product_repeat pool n)) pool)"
      "ws \<in> set (map (\<lambda>x. map (\<lambda>ys. x # ys) (product_repeat pool n)) pool)" "zs \<noteq> ws"
    then show "set zs \<inter> set ws = {}" by auto
  qed
qed

lemma restriction_combinations:
  "length (product_repeat [Plus, Minus] k) = 2 ^ k \<and>
   distinct (product_repeat [Plus, Minus] k) \<and>
   set (product_repeat [Plus, Minus] k) = {rs. length rs = k \<and> set rs \<subseteq> {Plus, Minus}}"
  by (simp add: length_product_repeat distinct_product_repeat set_product_repeat numeral_2_eq_2)

lemma process_returned_dags:
  "process B G F it cell pts ws qi ais integrand cm ic = Inr dags \<Longrightarrow>
   \<exists>tm. process_tabulation B F it cell pts integrand = Inr tm \<and>
     (startswith it ''interior_facet'' \<longrightarrow>
        length dags = 2 ^ length ais \<and>
        distinct (product_repeat [Plus, Minus] (length ais)) \<and>
        set (product_repeat [Plus, Minus] (length ais)) =
          {rs. length rs = length ais \<and> set rs \<subseteq> {Plus, Minus}} \<and>
        map Inr dags =
          map (\<lambda>rs. map_expr_dag F (Translator_modified_terminal G F (Translator_init G tm ws qi ais cm ic))
                      (pick_restriction F rs (simplify_abs F integrand)))
            (product_repeat [Plus, Minus] (length ais))) \<and>
     (\<not> startswith it ''interior_facet'' \<longrightarrow>
        length dags = 1 \<and>
        map Inr dags =
          [map_expr_dag F (Translator_modified_terminal G F (Translator_init G tm ws qi ais cm ic))
             (simplify_abs F integrand)])"
proof -
  assume p: "process B G F it cell pts ws qi ais integrand cm ic = Inr dags"
  then obtain tm where tm: "process_tabulation B F it cell pts integrand = Inr tm"
    by (cases "process_tabulation B F it cell pts integrand") (simp_all add: process_def)
  let ?h = "Translator_modified_terminal G F (Translator_init G tm ws qi ais cm ic)"
  let ?es = "process_expressions F it ais (simplify_abs F integrand)"
  from p tm have "sequence (map (map_expr_dag F ?h) ?es) = Inr dags"
    by (simp add: process_def Let_def map_expr_dags_def)
  then have m: "map Inr dags = map (map_expr_dag F ?h) ?es"
    by (rule sequence_Inr_map [symmetric])
  then have l: "length dags = length ?es"
    by (metis length_map)
  show ?thesis
  proof (intro exI conjI impI)
    show "process_tabulation B F it cell pts integrand = Inr tm" by (rule tm)
  next
    assume "startswith it ''interior_facet''"
    then show "length dags = 2 ^ length ais"
      using l by (simp add: process_expressions_def restriction_combinations)
  next
    assume "startswith it ''interior_facet''"
    then show "map Inr dags =
          map (\<lambda>rs. map_expr_dag F ?h (pick_restriction F rs (simplify_abs F integrand)))
            (product_repeat [Plus, Minus] (length ais))"
      using m by (simp add: process_expressions_def comp_def)
  next
    assume "\<not> startswith it ''interior_facet''"
    then show "length dags = 1"
      using l by (simp add: process_expressions_def)
  next
    assume "\<not> startswith it ''interior_facet''"
    then show "map Inr dags = [map_expr_dag F ?h (simplify_abs F integrand)]"
      using m by (simp add: process_expressions_def)
  qed (simp_all add: restriction_combinations)
qed

lemma sequence_returns:
  "(\<And>x. x \<in> set xs \<Longrightarrow> \<exists>v. x = Inr v) \<Longrightarrow> \<exists>vs. sequence xs = Inr vs \<and> length vs = length xs"
proof (induction xs)
  case Nil
  show ?case by simp
next
  case (Cons x xs)
  from Cons.prems obtain v where "x = Inr v" by auto
  moreover from Cons obtain vs where "sequence xs = Inr vs" "length vs = length xs" by auto
  ultimately show ?case by simp
qed

lemma process_returns:
  assumes tm: "process_tabulation B F it cell pts integrand = Inr tm"
    and ok: "\<And>e. e \<in> set (process_expressions F it ais (simplify_abs F integrand)) \<Longrightarrow>
               \<exists>d. map_expr_dag F (Translator_modified_terminal G F (Translator_init G tm ws qi ais cm ic)) e = Inr d"
  shows "\<exists>ds. process B G F it cell pts ws qi ais integrand cm ic = Inr ds \<and>
              length ds = (if startswith it ''interior_facet'' then 2 ^ length ais else 1)"
proof -
  let ?h = "Translator_modified_terminal G F (Translator_init G tm ws qi ais cm ic)"
  let ?es = "process_expressions F it ais (simplify_abs F integrand)"
  have "\<exists>vs. sequence (map (map_expr_dag F ?h) ?es) = Inr vs \<and> length vs = length (map (map_expr_dag F ?h) ?es)"
    by (rule sequence_returns) (use ok in auto)
  then obtain ds where ds: "sequence (map (map_expr_dag F ?h) ?es) = Inr ds" and l: "length ds = length ?es"
    by auto
  from ds tm have "process B G F it cell pts ws qi ais integrand cm ic = Inr ds"
    by (simp add: process_def Let_def map_expr_dags_def)
  moreover have "length ?es = (if startswith it ''interior_facet'' then 2 ^ length ais else 1)"
    by (simp add: process_expressions_def restriction_combinations)
  ultimately show ?thesis using l by simp
qed

text \<open>
  C1. Whenever \<open>process\<close> returns, its result has one DAG per integrand variant, in
  order. For an integral type whose name starts with \<open>interior_facet\<close> there are
  \<open>2 ^ k\<close> variants for \<open>k\<close> argument indices, one for each element of
  \<open>{+, -} ^ k\<close> in the order of \<^verbatim>\<open>itertools.product\<close> and without repetition, each the
  restriction-substitution pass of that combination applied to the simplified
  integrand; for any other integral type there is exactly one DAG, the translation of
  the simplified integrand itself. And \<open>process\<close> does return, with that many DAGs,
  whenever the tabulation succeeds and the translator succeeds on every variant.
\<close>

theorem process_restriction_variants:
  "(process B G F it cell pts ws qi ais integrand cm ic = Inr dags \<longrightarrow>
     (\<exists>tm. process_tabulation B F it cell pts integrand = Inr tm \<and>
        (startswith it ''interior_facet'' \<longrightarrow>
           length dags = 2 ^ length ais \<and>
           distinct (product_repeat [Plus, Minus] (length ais)) \<and>
           set (product_repeat [Plus, Minus] (length ais)) =
             {rs. length rs = length ais \<and> set rs \<subseteq> {Plus, Minus}} \<and>
           map Inr dags =
             map (\<lambda>rs. map_expr_dag F (Translator_modified_terminal G F (Translator_init G tm ws qi ais cm ic))
                         (pick_restriction F rs (simplify_abs F integrand)))
               (product_repeat [Plus, Minus] (length ais))) \<and>
        (\<not> startswith it ''interior_facet'' \<longrightarrow>
           length dags = 1 \<and>
           map Inr dags =
             [map_expr_dag F (Translator_modified_terminal G F (Translator_init G tm ws qi ais cm ic))
                (simplify_abs F integrand)]))) \<and>
   (\<forall>tm. process_tabulation B F it cell pts integrand = Inr tm \<and>
      (\<forall>e \<in> set (process_expressions F it ais (simplify_abs F integrand)).
         \<exists>d. map_expr_dag F (Translator_modified_terminal G F (Translator_init G tm ws qi ais cm ic)) e = Inr d) \<longrightarrow>
      (\<exists>ds. process B G F it cell pts ws qi ais integrand cm ic = Inr ds \<and>
            length ds = (if startswith it ''interior_facet'' then 2 ^ length ais else 1)))"
proof (intro conjI impI allI)
  assume "process B G F it cell pts ws qi ais integrand cm ic = Inr dags"
  then show "\<exists>tm. process_tabulation B F it cell pts integrand = Inr tm \<and>
        (startswith it ''interior_facet'' \<longrightarrow>
           length dags = 2 ^ length ais \<and>
           distinct (product_repeat [Plus, Minus] (length ais)) \<and>
           set (product_repeat [Plus, Minus] (length ais)) =
             {rs. length rs = length ais \<and> set rs \<subseteq> {Plus, Minus}} \<and>
           map Inr dags =
             map (\<lambda>rs. map_expr_dag F (Translator_modified_terminal G F (Translator_init G tm ws qi ais cm ic))
                         (pick_restriction F rs (simplify_abs F integrand)))
               (product_repeat [Plus, Minus] (length ais))) \<and>
        (\<not> startswith it ''interior_facet'' \<longrightarrow>
           length dags = 1 \<and>
           map Inr dags =
             [map_expr_dag F (Translator_modified_terminal G F (Translator_init G tm ws qi ais cm ic))
                (simplify_abs F integrand)])"
    by (rule process_returned_dags)
next
  fix tm
  assume "process_tabulation B F it cell pts integrand = Inr tm \<and>
      (\<forall>e \<in> set (process_expressions F it ais (simplify_abs F integrand)).
         \<exists>d. map_expr_dag F (Translator_modified_terminal G F (Translator_init G tm ws qi ais cm ic)) e = Inr d)"
  then show "\<exists>ds. process B G F it cell pts ws qi ais integrand cm ic = Inr ds \<and>
            length ds = (if startswith it ''interior_facet'' then 2 ^ length ais else 1)"
    by (intro process_returns) auto
qed

theorem process_restriction_variants_witness:
  "startswith ''interior_facet'' ''interior_facet'' \<and>
   process test_backend gem_nodes test_frontend ''interior_facet'' interval [[]] [1]
     (Index 0) [Index 1] test_integrand (\<lambda>t. Variable ''w'' [2]) (\<lambda>e. Index 3) =
   Inr [Sum (Indexed (PartialIndexed (PartialIndexed (Literal (Array3 [[[1, 0]], [[0, 1]]]))
                 [VariableIndex (Indexed (Variable ''facet'' [2]) [IntIndex 0])]) [Index 0]) [Index 1])
            (Indexed (Literal (Array1 [1])) [Index 0]),
        Sum (Indexed (PartialIndexed (PartialIndexed (Literal (Array3 [[[1, 0]], [[0, 1]]]))
                 [VariableIndex (Indexed (Variable ''facet'' [2]) [IntIndex 1])]) [Index 0]) [Index 1])
            (Indexed (Literal (Array1 [1])) [Index 0])] \<and>
   (\<exists>tm. process_tabulation test_backend test_frontend ''interior_facet'' interval [[]] test_integrand = Inr tm) \<and>
   product_repeat [Plus, Minus] (length [Index 1]) = [[Plus], [Minus]] \<and>
   \<not> startswith ''cell'' ''interior_facet'' \<and>
   process test_backend gem_nodes test_frontend ''cell'' interval [[0], [1]] [1 / 2, 1 / 2]
     (Index 0) [Index 1] test_integrand (\<lambda>t. Variable ''w'' [2]) (\<lambda>e. Index 3) =
   Inr [Sum (Indexed (PartialIndexed (Literal (Array2 [[1, 0], [0, 1]])) [Index 0]) [Index 1])
            (Indexed (Literal (Array1 [1 / 2, 1 / 2])) [Index 0])]"
proof -
  have s: "startswith ''interior_facet'' ''interior_facet''" "\<not> startswith ''cell'' ''interior_facet''"
    by (simp_all add: startswith_def)
  have p: "process test_backend gem_nodes test_frontend ''interior_facet'' interval [[]] [1]
     (Index 0) [Index 1] test_integrand (\<lambda>t. Variable ''w'' [2]) (\<lambda>e. Index 3) =
   Inr [Sum (Indexed (PartialIndexed (PartialIndexed (Literal (Array3 [[[1, 0]], [[0, 1]]]))
                 [VariableIndex (Indexed (Variable ''facet'' [2]) [IntIndex 0])]) [Index 0]) [Index 1])
            (Indexed (Literal (Array1 [1])) [Index 0]),
        Sum (Indexed (PartialIndexed (PartialIndexed (Literal (Array3 [[[1, 0]], [[0, 1]]]))
                 [VariableIndex (Indexed (Variable ''facet'' [2]) [IntIndex 1])]) [Index 0]) [Index 1])
            (Indexed (Literal (Array1 [1])) [Index 0])]"
    by code_simp
  have c: "process test_backend gem_nodes test_frontend ''cell'' interval [[0], [1]] [1 / 2, 1 / 2]
     (Index 0) [Index 1] test_integrand (\<lambda>t. Variable ''w'' [2]) (\<lambda>e. Index 3) =
   Inr [Sum (Indexed (PartialIndexed (Literal (Array2 [[1, 0], [0, 1]])) [Index 0]) [Index 1])
            (Indexed (Literal (Array1 [1 / 2, 1 / 2])) [Index 0])]"
    by code_simp
  have r: "product_repeat [Plus, Minus] (length [Index 1]) = [[Plus], [Minus]]"
    by code_simp
  from process_restriction_variants [THEN conjunct1, THEN mp, OF p]
  have "\<exists>tm. process_tabulation test_backend test_frontend ''interior_facet'' interval [[]] test_integrand = Inr tm"
    by blast
  with s p c r show ?thesis by simp
qed

subsection \<open>Constant compression\<close>


lemma rows2_map_Array2: "rows2 (map Array2 ms) = Some ms"
  by (induction ms) auto




lemma numpy_array_Array3_D:
  "numpy_array ts = Inr (Array3 ms) \<Longrightarrow> ts = map Array2 ms \<and> ms \<noteq> []"
proof -
  have r: "rows2 ts = Some ms \<Longrightarrow> ts = map Array2 ms" for ts ms
  proof (induction ts arbitrary: ms rule: rows2.induct)
    case 1
    then show ?case by simp
  next
    case (2 m ts)
    then show ?case by auto
  qed simp_all
  assume "numpy_array ts = Inr (Array3 ms)"
  then show ?thesis
    by (auto simp: numpy_array_def split: list.splits table.splits option.splits if_splits dest: r)
qed







subsection \<open>The expansion of sparse constant tables\<close>








subsection \<open>Evaluation of the two translations of a coefficient\<close>



lemma tensor_index_vector:
  "i < length xs \<Longrightarrow> tensor_index (Tensor (map Scalar xs)) [i] = Some (Scalar (xs ! i))"
  by simp

















end
